theory Spec2Isabelle
  imports Main "HOL-Library.Char_ord" "HOL-Library.List_Lexorder" "HOL-Library.Multiset"
begin

section \<open>Data model of the data grid (src/main.jsx)\<close>

text \<open>
  A cell value of the fetched JSON is a number or a string. The model is parametric in
  the number type \<open>'n\<close>: sorting needs only its linear order and rendering only a
  formatter for it. A row is the list of its own keys with their values, in the order
  in which \<^verbatim>\<open>Object.keys\<close> lists them (each key once); \<^verbatim>\<open>row[col]\<close> is \<open>map_of row col\<close>, where
  \<open>None\<close> stands for \<^verbatim>\<open>undefined\<close> (properties inherited from the object prototype
  are modelled where lodash reads the value it sorts by, not in the cells).
\<close>

datatype 'n scalar = Num 'n | Str string

type_synonym 'n datum = "'n scalar option"

type_synonym 'n row = "(string \<times> 'n scalar) list"

datatype dir = ASC | DEC

record sort_state =
  direction :: dir
  column :: string

text \<open>The five \<^verbatim>\<open>useState\<close> cells of the hook \<^verbatim>\<open>useStateData\<close>.\<close>

record 'n hook_state =
  data :: "'n row list"
  loading :: bool
  error :: "string option"
  sortedOn :: sort_state
  pinnedColumns :: "string list"

definition initial_state :: "'n hook_state" where
  "initial_state =
     \<lparr>data = [], loading = False, error = None,
      sortedOn = \<lparr>direction = ASC, column = ''state''\<rparr>, pinnedColumns = []\<rparr>"

section \<open>Pinning\<close>

text \<open>
  \<^verbatim>\<open>handlePinning(col)\<close>: when the column is among the pinned ones, the others are kept
  by \<^verbatim>\<open>filter\<close>; otherwise the column is pushed at the end.
\<close>

definition handlePinning :: "string \<Rightarrow> 'n hook_state \<Rightarrow> 'n hook_state" where
  "handlePinning col s =
     (if col \<in> set (pinnedColumns s)
      then s\<lparr>pinnedColumns := filter (\<lambda>c. c \<noteq> col) (pinnedColumns s)\<rparr>
      else s\<lparr>pinnedColumns := pinnedColumns s @ [col]\<rparr>)"

section \<open>Derived columns\<close>

definition startsWith :: "string \<Rightarrow> string \<Rightarrow> bool" where
  "startsWith s p = (take (length p) s = p)"

text \<open>
  lodash \<^verbatim>\<open>uniq\<close> walks the array once and pushes a value on the result unless the
  result holds it already, so the first occurrence of each value stays.
\<close>

fun baseUniq :: "'a list \<Rightarrow> 'a list \<Rightarrow> 'a list" where
  "baseUniq result [] = result"
| "baseUniq result (x # xs) =
     (if x \<in> set result then baseUniq result xs else baseUniq (result @ [x]) xs)"

definition uniq :: "'a list \<Rightarrow> 'a list" where
  "uniq xs = baseUniq [] xs"

text \<open>The keys a row contributes: its own keys that do not start with an underscore.\<close>

definition visibleKeys :: "'n row \<Rightarrow> string list" where
  "visibleKeys row = filter (\<lambda>key. \<not> startsWith key ''_'') (map fst row)"

definition initialColumns :: "'n row list \<Rightarrow> string list" where
  "initialColumns rows = uniq (concat (map visibleKeys rows))"

definition newColumns :: "string list \<Rightarrow> 'n row list \<Rightarrow> string list" where
  "newColumns pinned rows = uniq (pinned @ initialColumns rows)"

definition columns :: "'n hook_state \<Rightarrow> string list" where
  "columns s = newColumns (pinnedColumns s) (data s)"

section \<open>Sorting\<close>

text \<open>
  What the platform and lodash bring to a comparison beyond the rows themselves, as
  parameters: the conversion of a string to a number (\<open>None\<close> for \<^verbatim>\<open>NaN\<close>); for a
  property of the object prototype, the string that the inherited function or object
  converts to when it is compared; and, for a column name with a dot or a bracket in a
  row that has no such key, what lodash reads along the path (a number, a string, a
  function or object as the string it converts to, or \<^verbatim>\<open>undefined\<close>).
\<close>

record 'n platform =
  toNumber :: "string \<Rightarrow> 'n option"
  protoText :: "string \<Rightarrow> string"
  deepGet :: "string \<Rightarrow> 'n row \<Rightarrow> 'n datum"

text \<open>
  The relational operator \<^verbatim>\<open><\<close> of JavaScript on two such values: numbers by value,
  strings lexicographically by code unit (the order of \<open>string\<close> here), and \<^verbatim>\<open>undefined\<close>
  below nothing and above nothing. Between a number and a string the string is first
  converted to a number.
\<close>

fun js_less :: "('n::linorder) platform \<Rightarrow> 'n datum \<Rightarrow> 'n datum \<Rightarrow> bool" where
  "js_less pf (Some (Num x)) (Some (Num y)) = (x < y)"
| "js_less pf (Some (Str u)) (Some (Str v)) = (u < v)"
| "js_less pf (Some (Num x)) (Some (Str v)) =
     (case toNumber pf v of None \<Rightarrow> False | Some y \<Rightarrow> x < y)"
| "js_less pf (Some (Str u)) (Some (Num y)) =
     (case toNumber pf u of None \<Rightarrow> False | Some x \<Rightarrow> x < y)"
| "js_less pf None b = False"
| "js_less pf (Some a) None = False"

text \<open>
  lodash \<^verbatim>\<open>compareAscending(value, other)\<close> on these values (its branches for
  \<^verbatim>\<open>null\<close>, symbols and \<^verbatim>\<open>NaN\<close> cannot be taken): 1 when \<^verbatim>\<open>value > other\<close> or value is
  undefined, else -1 when \<^verbatim>\<open>value < other\<close> or other is undefined, else 0.
\<close>

definition compareAscending :: "('n::linorder) platform \<Rightarrow> 'n datum \<Rightarrow> 'n datum \<Rightarrow> int" where
  "compareAscending pf v other =
     (if v \<noteq> other then
        (if js_less pf other v \<or> v = None then 1
         else if js_less pf v other \<or> other = None then - 1
         else 0)
      else 0)"

text \<open>
  The value lodash sorts a row by, \<^verbatim>\<open>property(col)(row)\<close>. A key of the row itself is
  read first. Otherwise a name made of word characters is read from the object
  prototype, which has the twelve names below; a name without a dot and without an
  opening bracket is no path and reads \<^verbatim>\<open>undefined\<close>; any other name is read along
  its path.
\<close>

definition wordChar :: "char \<Rightarrow> bool" where
  "wordChar c = (c \<in> set ''ABCDEFGHIJKLMNOPQRSTUVWXYZabcdefghijklmnopqrstuvwxyz0123456789_'')"

definition objectPrototypeNames :: "string list" where
  "objectPrototypeNames =
     [''constructor'', ''hasOwnProperty'', ''isPrototypeOf'', ''propertyIsEnumerable'',
      ''toLocaleString'', ''toString'', ''valueOf'', ''__proto__'', ''__defineGetter__'',
      ''__defineSetter__'', ''__lookupGetter__'', ''__lookupSetter__'']"

definition property :: "'n platform \<Rightarrow> string \<Rightarrow> 'n row \<Rightarrow> 'n datum" where
  "property pf col row =
     (case map_of row col of
        Some v \<Rightarrow> Some v
      | None \<Rightarrow>
          if list_all wordChar col then
            (if col \<in> set objectPrototypeNames then Some (Str (protoText pf col)) else None)
          else if CHR ''.'' \<in> set col \<or> CHR ''['' \<in> set col then deepGet pf col row
          else None)"

text \<open>
  lodash \<^verbatim>\<open>sortBy(rows, [col])\<close> sorts by \<^verbatim>\<open>compareAscending\<close> on that value and breaks
  ties by the position in the input, into a new array. Here it is insertion from the
  right end, where a row goes before the first row that it does not exceed. (On a column
  that mixes numbers and strings the comparison need not be an order and the result of
  the platform's sort is not determined by it.)
\<close>

fun insertRow :: "('a \<Rightarrow> 'a \<Rightarrow> int) \<Rightarrow> 'a \<Rightarrow> 'a list \<Rightarrow> 'a list" where
  "insertRow cmp x [] = [x]"
| "insertRow cmp x (y # ys) = (if cmp x y \<le> 0 then x # y # ys else y # insertRow cmp x ys)"

definition compareRows :: "('n::linorder) platform \<Rightarrow> string \<Rightarrow> 'n row \<Rightarrow> 'n row \<Rightarrow> int" where
  "compareRows pf col a b = compareAscending pf (property pf col a) (property pf col b)"

definition sortBy :: "('n::linorder) platform \<Rightarrow> 'n row list \<Rightarrow> string \<Rightarrow> 'n row list" where
  "sortBy pf rows col = foldr (insertRow (compareRows pf col)) rows []"

text \<open>\<^verbatim>\<open>handleSort(col)\<close>, with lodash \<^verbatim>\<open>reverse\<close> as \<open>rev\<close>.\<close>

definition handleSort :: "('n::linorder) platform \<Rightarrow> string \<Rightarrow> 'n hook_state \<Rightarrow> 'n hook_state" where
  "handleSort pf col s =
     (if column (sortedOn s) = col then
        (if direction (sortedOn s) = ASC then
           s\<lparr>sortedOn := (sortedOn s)\<lparr>direction := DEC\<rparr>,
             data := rev (sortBy pf (data s) col)\<rparr>
         else
           s\<lparr>sortedOn := \<lparr>direction = ASC, column = ''state''\<rparr>,
             data := sortBy pf (data s) ''state''\<rparr>)
      else
        s\<lparr>sortedOn := \<lparr>direction = ASC, column = col\<rparr>,
          data := sortBy pf (data s) col\<rparr>)"

section \<open>Loading\<close>

text \<open>
  \<^verbatim>\<open>getStatesData\<close> runs in two parts around its \<^verbatim>\<open>await\<close>s: it sets the loading flag
  and issues the request; when the request has settled it clears the flag and either
  stores the rows or, in the \<^verbatim>\<open>catch\<close> block, sets the error and logs it. Each part
  returns the new state and the effects it issued. The request settles with the parsed
  rows, with a rejection of \<^verbatim>\<open>fetch\<close>, or with a rejection of \<^verbatim>\<open>res.json()\<close>; a
  rejection carries its message.
\<close>

datatype 'n settled = Resolved "'n row list" | FetchRejected string | JsonRejected string

datatype effect = Fetch string | ConsoleError string string

definition STATE_DATA_URL :: string where
  "STATE_DATA_URL = ''https://assets.codepen.io/5781725/states-data.json''"

definition getStatesData_start :: "'n hook_state \<Rightarrow> 'n hook_state \<times> effect list" where
  "getStatesData_start s = (s\<lparr>loading := True\<rparr>, [Fetch STATE_DATA_URL])"

definition getStatesData_settle :: "'n settled \<Rightarrow> 'n hook_state \<Rightarrow> 'n hook_state \<times> effect list" where
  "getStatesData_settle r s =
     (case r of
        Resolved statesData \<Rightarrow> (s\<lparr>loading := False, data := statesData\<rparr>, [])
      | FetchRejected msg \<Rightarrow>
          (s\<lparr>loading := False, error := Some ''Error fetching states''\<rparr>,
           [ConsoleError ''Error fetching states'' msg])
      | JsonRejected msg \<Rightarrow>
          (s\<lparr>loading := False, error := Some ''Error fetching states''\<rparr>,
           [ConsoleError ''Error fetching states'' msg]))"

section \<open>Rendering\<close>

text \<open>
  \<^verbatim>\<open>toLowerCase\<close> changes the ASCII capitals here; no other character lowers to one of
  the four characters of the suffix that \<open>Cell\<close> tests.
\<close>

definition toLowerChar :: "char \<Rightarrow> char" where
  "toLowerChar c =
     (case map_of (zip ''ABCDEFGHIJKLMNOPQRSTUVWXYZ'' ''abcdefghijklmnopqrstuvwxyz'') c of
        Some l \<Rightarrow> l | None \<Rightarrow> c)"

definition toLowerCase :: "string \<Rightarrow> string" where
  "toLowerCase u = map toLowerChar u"

definition endsWith :: "string \<Rightarrow> string \<Rightarrow> bool" where
  "endsWith u suffix =
     (length suffix \<le> length u \<and> drop (length u - length suffix) u = suffix)"

text \<open>
  The child of the \<^verbatim>\<open>td\<close> that \<open>Cell\<close> returns: an \<^verbatim>\<open>img\<close> element with its source, the
  string that \<^verbatim>\<open>toLocaleString\<close> returned, or the datum itself. The number formatter of
  the platform's locale is the parameter \<open>toLocaleString\<close>.
\<close>

datatype 'n child = Img string | Text string | Value "'n datum"

record 'n td =
  className :: string
  child :: "'n child"

definition Cell :: "('n \<Rightarrow> string) \<Rightarrow> 'n datum \<Rightarrow> bool \<Rightarrow> 'n td" where
  "Cell toLocaleString datum pinned =
     \<lparr>className = (if pinned then ''pinned'' else []),
      child =
        (case datum of
           Some (Str u) \<Rightarrow> if endsWith (toLowerCase u) ''.png'' then Img u else Value datum
         | Some (Num x) \<Rightarrow> Text (toLocaleString x)
         | None \<Rightarrow> Value datum)\<rparr>"

text \<open>
  What React puts in the document for such a child: the element, a text node for a
  string, the number printed for a number, and nothing for \<^verbatim>\<open>undefined\<close>.
\<close>

datatype 'n node = ImgElement string | TextNode string | NumberNode 'n | NoNode

fun rendered :: "'n child \<Rightarrow> 'n node" where
  "rendered (Img src) = ImgElement src"
| "rendered (Text t) = TextNode t"
| "rendered (Value None) = NoNode"
| "rendered (Value (Some (Str u))) = TextNode u"
| "rendered (Value (Some (Num x))) = NumberNode x"

text \<open>
  \<^verbatim>\<open>Number.prototype.toLocaleString\<close> of an en-US locale on integers: the decimal digits
  in groups of three separated by commas, after a minus sign when negative.
\<close>

fun digits :: "nat \<Rightarrow> string" where
  "digits n =
     (if n < 10 then [''0123456789'' ! n] else digits (n div 10) @ [''0123456789'' ! (n mod 10)])"

fun groupRev :: "string \<Rightarrow> string" where
  "groupRev (a # b # c # d # rest) = a # b # c # CHR '','' # groupRev (d # rest)"
| "groupRev ds = ds"

definition toLocaleString_enUS :: "int \<Rightarrow> string" where
  "toLocaleString_enUS i =
     (if i < 0 then ''-'' else []) @ rev (groupRev (rev (digits (nat \<bar>i\<bar>))))"

text \<open>
  \<open>DataGrid\<close>: the loading text, the error text when the error is truthy, or the table
  with one header cell per column (its title and pinned flag) and one row of cells per
  row of the data.
\<close>

datatype 'n view = Div string | Table "(string \<times> bool) list" "'n td list list"

definition truthy :: "string option \<Rightarrow> bool" where
  "truthy e = (case e of None \<Rightarrow> False | Some msg \<Rightarrow> msg \<noteq> [])"

definition DataGrid :: "('n \<Rightarrow> string) \<Rightarrow> 'n hook_state \<Rightarrow> 'n view" where
  "DataGrid toLocaleString s =
     (if loading s then Div ''Loading...''
      else if truthy (error s) then Div (case error s of Some msg \<Rightarrow> msg | None \<Rightarrow> [])
      else Table
        (map (\<lambda>col. (col, col \<in> set (pinnedColumns s))) (columns s))
        (map (\<lambda>row. map (\<lambda>col. Cell toLocaleString (map_of row col) (col \<in> set (pinnedColumns s)))
                       (columns s))
             (data s)))"

text \<open>A click on a header: pinning with the meta key held, sorting otherwise.\<close>

definition onClick :: "('n::linorder) platform \<Rightarrow> string \<Rightarrow> bool \<Rightarrow> 'n hook_state \<Rightarrow> 'n hook_state" where
  "onClick pf col metaKey s =
     (if metaKey then handlePinning col s else handleSort pf col s)"

text \<open>
  The states the hook goes through: the initial one, the one after the effect has started
  the request, the one after the request has settled, and from then on one more for each
  click on a header of the table that is displayed.
\<close>

inductive reachable :: "('n::linorder) platform \<Rightarrow> 'n hook_state \<Rightarrow> bool"
  for pf :: "'n platform" where
  mounted: "reachable pf initial_state"
| started: "reachable pf (fst (getStatesData_start initial_state))"
| settled: "reachable pf (fst (getStatesData_settle r (fst (getStatesData_start initial_state))))"
| clicked: "reachable pf s \<Longrightarrow> \<not> loading s \<Longrightarrow> \<not> truthy (error s) \<Longrightarrow> col \<in> set (columns s)
     \<Longrightarrow> reachable pf (onClick pf col metaKey s)"

section \<open>Vocabulary of the properties\<close>

text \<open>
  A column has comparable values in a dataset when no row has a string there, or no row
  has a number there. A dataset is non-decreasing by a column when each row's value is at
  most the value of every later row, a row without the column counting as greatest (the
  place lodash gives \<^verbatim>\<open>undefined\<close>).
\<close>

definition isNumber :: "'n datum \<Rightarrow> bool" where
  "isNumber d = (case d of Some (Num x) \<Rightarrow> True | _ \<Rightarrow> False)"

definition isString :: "'n datum \<Rightarrow> bool" where
  "isString d = (case d of Some (Str u) \<Rightarrow> True | _ \<Rightarrow> False)"


fun datum_le :: "'n::linorder datum \<Rightarrow> 'n datum \<Rightarrow> bool" where
  "datum_le (Some (Num x)) (Some (Num y)) = (x \<le> y)"
| "datum_le (Some (Str u)) (Some (Str v)) = (u \<le> v)"
| "datum_le a None = True"
| "datum_le a b = False"

definition nondecreasing :: "string \<Rightarrow> 'n::linorder row list \<Rightarrow> bool" where
  "nondecreasing col rows = sorted_wrt (\<lambda>a b. datum_le (map_of a col) (map_of b col)) rows"

text \<open>The keys of all rows in the order in which they are met, and the place where a key is first met.\<close>

definition allKeys :: "'n row list \<Rightarrow> string list" where
  "allKeys rows = concat (map (map fst) rows)"

definition first_index :: "'a list \<Rightarrow> 'a \<Rightarrow> nat" where
  "first_index xs x = length (takeWhile (\<lambda>y. y \<noteq> x) xs)"

text \<open>
  lodash sorts the rows of a dataset by their own values of a column when every row has
  the column as a key, or when the column's name holds no dot and no opening bracket and
  is not a name of the object prototype.
\<close>

definition readsOwn :: "string \<Rightarrow> 'n row list \<Rightarrow> bool" where
  "readsOwn col rows =
     (list_all (\<lambda>r. map_of r col \<noteq> None) rows
      \<or> (CHR ''.'' \<notin> set col \<and> CHR ''['' \<notin> set col \<and> col \<notin> set objectPrototypeNames))"

text \<open>
  The same two notions on the values that the sort reads for a column in the rows.
\<close>

definition comparableRead :: "'n platform \<Rightarrow> string \<Rightarrow> 'n row list \<Rightarrow> bool" where
  "comparableRead pf col rows =
     (list_all (\<lambda>r. \<not> isString (property pf col r)) rows
      \<or> list_all (\<lambda>r. \<not> isNumber (property pf col r)) rows)"

definition nondecreasingRead :: "('n::linorder) platform \<Rightarrow> string \<Rightarrow> 'n row list \<Rightarrow> bool" where
  "nondecreasingRead pf col rows =
     sorted_wrt (\<lambda>a b. datum_le (property pf col a) (property pf col b)) rows"

text \<open>A platform for the examples, and rows: the two rows of the sorting scenario, and two rows with other keys.\<close>

definition example_platform :: "int platform" where
  "example_platform = \<lparr>toNumber = (\<lambda>u. None), protoText = (\<lambda>u. u), deepGet = (\<lambda>col row. None)\<rparr>"

definition texas :: "int row" where
  "texas = [(''state'', Str ''Texas''), (''pop'', Num 29000000)]"


definition texas_id :: "int row" where
  "texas_id = [(''_id'', Num 1), (''state'', Str ''Texas''), (''pop'', Num 29000000)]"

definition ohio_capital :: "int row" where
  "ohio_capital = [(''state'', Str ''Ohio''), (''capital'', Str ''Columbus'')]"

text \<open>The cells of the displayed columns state and pop for the third of these rows.\<close>

definition texas_cells :: "int td list" where
  "texas_cells =
     [Cell toLocaleString_enUS (Some (Str ''Texas'')) False,
      Cell toLocaleString_enUS (Some (Num 29000000)) False]"

text \<open>
  Three rows of which the second has no key name.length but a name of five characters,
  and a platform on which lodash reads that length along the path.
\<close>

definition length_b :: "int row" where
  "length_b = [(''state'', Str ''B''), (''name.length'', Num 9)]"

definition length_a :: "int row" where
  "length_a = [(''state'', Str ''A''), (''name'', Str ''Texas'')]"

definition length_c :: "int row" where
  "length_c = [(''state'', Str ''C''), (''name.length'', Num 1)]"

definition path_platform :: "int platform" where
  "path_platform =
     \<lparr>toNumber = (\<lambda>u. None), protoText = (\<lambda>u. u),
      deepGet = (\<lambda>col row.
        if col = ''name.length''
        then (case map_of row ''name'' of Some (Str u) \<Rightarrow> Some (Num (int (length u))) | _ \<Rightarrow> None)
        else None)\<rparr>"

section \<open>Properties of pinning\<close>

lemma handlePinning_pinned:
  "pinnedColumns (handlePinning c s) =
     (if c \<in> set (pinnedColumns s) then filter (\<lambda>x. x \<noteq> c) (pinnedColumns s)
      else pinnedColumns s @ [c])"
  by (simp add: handlePinning_def)

text \<open>
  Claim C4. Toggling a pinned column removes it and keeps the others in their order;
  toggling a column that is not pinned appends it. From no pins, toggling pop and then
  capital gives [pop, capital], and toggling pop again gives [capital].
\<close>

theorem C4_toggle_pin:
  "(c \<in> set (pinnedColumns (s :: 'n hook_state)) \<longrightarrow>
      pinnedColumns (handlePinning c s) = filter (\<lambda>x. x \<noteq> c) (pinnedColumns s)
      \<and> c \<notin> set (pinnedColumns (handlePinning c s)))
   \<and> (c \<notin> set (pinnedColumns s) \<longrightarrow>
      pinnedColumns (handlePinning c s) = pinnedColumns s @ [c])
   \<and> pinnedColumns (handlePinning ''capital'' (handlePinning ''pop'' (initial_state :: 'n hook_state)))
        = [''pop'', ''capital'']
   \<and> pinnedColumns (handlePinning ''pop''
        (handlePinning ''capital'' (handlePinning ''pop'' (initial_state :: 'n hook_state))))
        = [''capital'']"
  by (simp add: handlePinning_pinned initial_state_def)

theorem C4_toggle_pin_witness:
  "pinnedColumns (handlePinning ''pop''
      ((initial_state :: int hook_state)\<lparr>pinnedColumns := [''pop'', ''capital'']\<rparr>)) = [''capital'']
   \<and> pinnedColumns (handlePinning ''area''
      ((initial_state :: int hook_state)\<lparr>pinnedColumns := [''pop'', ''capital'']\<rparr>))
        = [''pop'', ''capital'', ''area'']"
  using C4_toggle_pin [of "''pop''" "(initial_state :: int hook_state)\<lparr>pinnedColumns := [''pop'', ''capital'']\<rparr>"]
    C4_toggle_pin [of "''area''" "(initial_state :: int hook_state)\<lparr>pinnedColumns := [''pop'', ''capital'']\<rparr>"]
  by simp

text \<open>
  Claim C5. Toggling a pin changes the pinned columns only: the sort state and the
  dataset, with its row order, stay as they were (and so do the loading flag and the error).
\<close>

theorem C5_toggle_pin_frame:
  "sortedOn (handlePinning c s) = sortedOn s
   \<and> data (handlePinning c s) = data s
   \<and> loading (handlePinning c s) = loading s
   \<and> error (handlePinning c s) = error s
   \<and> handlePinning c s = s\<lparr>pinnedColumns := pinnedColumns (handlePinning c s)\<rparr>"
  by (simp add: handlePinning_def)

text \<open>
  With pop and capital pinned in this order, toggling pop twice gives capital, pop: the
  claim C2 as stated fails there.
\<close>

theorem C2_counterexample:
  "pinnedColumns (handlePinning ''pop'' (handlePinning ''pop''
      ((initial_state :: int hook_state)\<lparr>pinnedColumns := [''pop'', ''capital'']\<rparr>)))
     = [''capital'', ''pop'']
   \<and> pinnedColumns (handlePinning ''pop'' (handlePinning ''pop''
      ((initial_state :: int hook_state)\<lparr>pinnedColumns := [''pop'', ''capital'']\<rparr>)))
     \<noteq> pinnedColumns ((initial_state :: int hook_state)\<lparr>pinnedColumns := [''pop'', ''capital'']\<rparr>)"
  by (simp add: handlePinning_pinned)

text \<open>
  Claim C2, amended. Toggling twice a column that is not pinned gives back the pinned
  columns, content and order. Toggling twice a pinned column gives the other pinned
  columns in their order followed by that column: the content is the same, the column
  has moved to the end.
\<close>

theorem C2_toggle_twice:
  "(c \<notin> set (pinnedColumns s) \<longrightarrow>
      pinnedColumns (handlePinning c (handlePinning c s)) = pinnedColumns s)
   \<and> (c \<in> set (pinnedColumns s) \<longrightarrow>
      pinnedColumns (handlePinning c (handlePinning c s))
        = filter (\<lambda>x. x \<noteq> c) (pinnedColumns s) @ [c])
   \<and> set (pinnedColumns (handlePinning c (handlePinning c s))) = set (pinnedColumns s)"
  by (auto simp: handlePinning_pinned filter_id_conv)

theorem C2_toggle_twice_witness:
  "pinnedColumns (handlePinning ''area'' (handlePinning ''area''
      ((initial_state :: int hook_state)\<lparr>pinnedColumns := [''pop'', ''capital'']\<rparr>)))
     = [''pop'', ''capital'']
   \<and> pinnedColumns (handlePinning ''pop'' (handlePinning ''pop''
      ((initial_state :: int hook_state)\<lparr>pinnedColumns := [''pop'', ''capital'']\<rparr>)))
     = [''capital'', ''pop'']"
  using C2_toggle_twice [of "''area''" "(initial_state :: int hook_state)\<lparr>pinnedColumns := [''pop'', ''capital'']\<rparr>"]
    C2_toggle_twice [of "''pop''" "(initial_state :: int hook_state)\<lparr>pinnedColumns := [''pop'', ''capital'']\<rparr>"]
  by simp

section \<open>Properties of sorting\<close>































text \<open>
  Where a row lacks a column whose name is a path, the rows are ordered by what lodash
  reads along the path, not by the rows' own values of the column.
\<close>

lemma sortBy_path_example:
  "\<not> readsOwn ''name.length'' [length_b, length_a, length_c]
   \<and> comparableRead path_platform ''name.length'' [length_b, length_a, length_c]
   \<and> sortBy path_platform [length_b, length_a, length_c] ''name.length''
       = [length_c, length_a, length_b]
   \<and> nondecreasingRead path_platform ''name.length'' [length_c, length_a, length_b]
   \<and> \<not> nondecreasing ''name.length'' [length_c, length_a, length_b]"
  by (simp add: readsOwn_def comparableRead_def isNumber_def isString_def nondecreasing_def
      nondecreasingRead_def sortBy_def compareRows_def compareAscending_def property_def
      wordChar_def path_platform_def length_a_def length_b_def length_c_def)



section \<open>Properties of the derived columns\<close>

lemma baseUniq_snoc:
  "baseUniq r (xs @ [x]) = (if x \<in> set (baseUniq r xs) then baseUniq r xs else baseUniq r xs @ [x])"
  by (induction xs arbitrary: r) auto

lemma baseUniq_append: "baseUniq r (xs @ ys) = baseUniq (baseUniq r xs) ys"
  by (induction xs arbitrary: r) auto

lemma set_baseUniq: "set (baseUniq r xs) = set r \<union> set xs"
  by (induction xs arbitrary: r) auto

lemma distinct_baseUniq: "distinct r \<Longrightarrow> distinct (baseUniq r xs)"
  by (induction xs arbitrary: r) auto

lemma set_uniq: "set (uniq xs) = set xs"
  by (simp add: uniq_def set_baseUniq)

lemma distinct_uniq: "distinct (uniq xs)"
  by (simp add: uniq_def distinct_baseUniq)

lemma baseUniq_split:
  "baseUniq r xs = r @ uniq (filter (\<lambda>x. x \<notin> set r) xs)"
proof (induction xs rule: rev_induct)
  case Nil
  show ?case by (simp add: uniq_def)
next
  case (snoc x xs)
  then show ?case
    by (auto simp: baseUniq_snoc uniq_def set_baseUniq)
qed

lemma uniq_distinct_id: "distinct xs \<Longrightarrow> uniq xs = xs"
  by (induction xs rule: rev_induct) (auto simp: uniq_def baseUniq_snoc set_baseUniq)

lemma uniq_filter: "uniq (filter P xs) = filter P (uniq xs)"
  by (induction xs rule: rev_induct) (auto simp: uniq_def baseUniq_snoc set_baseUniq)

lemma uniq_append: "uniq (xs @ ys) = uniq xs @ filter (\<lambda>y. y \<notin> set xs) (uniq ys)"
proof -
  have "uniq (xs @ ys) = baseUniq (uniq xs) ys"
    by (simp add: uniq_def baseUniq_append)
  also have "\<dots> = uniq xs @ uniq (filter (\<lambda>y. y \<notin> set (uniq xs)) ys)"
    by (rule baseUniq_split)
  finally show ?thesis by (simp add: set_uniq uniq_filter)
qed

lemma first_index_append:
  "first_index (xs @ ys) a =
     (if a \<in> set xs then first_index xs a else length xs + first_index ys a)"
  by (induction xs) (auto simp: first_index_def)

lemma first_index_less: "a \<in> set xs \<Longrightarrow> first_index xs a < length xs"
  by (induction xs) (auto simp: first_index_def)

lemma first_index_notin: "a \<notin> set xs \<Longrightarrow> first_index xs a = length xs"
  by (induction xs) (auto simp: first_index_def)

lemma uniq_first_seen:
  "sorted_wrt (\<lambda>a b. first_index xs a < first_index xs b) (uniq (filter P xs))"
proof (induction xs rule: rev_induct)
  case Nil
  show ?case by (simp add: uniq_def)
next
  case (snoc x xs)
  let ?U = "uniq (filter P xs)"
  have sub: "set ?U \<subseteq> set xs" by (auto simp: set_uniq)
  have keep: "sorted_wrt (\<lambda>a b. first_index (xs @ [x]) a < first_index (xs @ [x]) b) ?U"
    by (rule sorted_wrt_mono_rel [OF _ snoc.IH]) (use sub in \<open>auto simp: first_index_append\<close>)
  show ?case
  proof (cases "P x \<and> x \<notin> set xs")
    case True
    then have eq: "uniq (filter P (xs @ [x])) = ?U @ [x]"
      by (auto simp: uniq_def baseUniq_snoc set_baseUniq)
    have "\<forall>u\<in>set ?U. first_index (xs @ [x]) u < first_index (xs @ [x]) x"
      using sub True by (auto simp: first_index_append intro: trans_less_add1 first_index_less)
    with keep show ?thesis unfolding eq by (simp add: sorted_wrt_append)
  next
    case False
    then have eq: "uniq (filter P (xs @ [x])) = ?U"
      by (auto simp: uniq_def baseUniq_snoc set_baseUniq)
    from keep show ?thesis unfolding eq .
  qed
qed

lemma visible_concat:
  "concat (map visibleKeys rows) = filter (\<lambda>key. \<not> startsWith key ''_'') (allKeys rows)"
  by (induction rows) (auto simp: visibleKeys_def allKeys_def)

lemma set_initialColumns:
  "set (initialColumns rows) = {k \<in> set (allKeys rows). \<not> startsWith k ''_''}"
  by (auto simp: initialColumns_def set_uniq visible_concat)

lemma newColumns_split:
  "newColumns pinned rows = uniq pinned @ filter (\<lambda>k. k \<notin> set pinned) (initialColumns rows)"
  by (simp add: newColumns_def uniq_append initialColumns_def uniq_distinct_id [OF distinct_uniq])

text \<open>
  Claim C3, amended. The derived column list has no duplicates; it holds the pinned
  columns and every key of any row that does not begin with an underscore, and nothing
  else (a key that begins with an underscore is left out unless pinned). When the pinned
  columns have no duplicates, the list is the pinned columns in their order followed by
  the remaining columns; the row-derived columns stand in the order in which the keys
  are first met across the rows.
\<close>

theorem C3_column_list:
  "distinct (newColumns pinned rows)
   \<and> set (newColumns pinned rows) = set pinned \<union> {k \<in> set (allKeys rows). \<not> startsWith k ''_''}
   \<and> (distinct pinned \<longrightarrow>
        newColumns pinned rows = pinned @ filter (\<lambda>k. k \<notin> set pinned) (initialColumns rows))
   \<and> sorted_wrt (\<lambda>a b. first_index (allKeys rows) a < first_index (allKeys rows) b)
        (initialColumns rows)"
proof -
  have "distinct (newColumns pinned rows)"
    by (simp add: newColumns_def distinct_uniq)
  moreover have "set (newColumns pinned rows)
      = set pinned \<union> {k \<in> set (allKeys rows). \<not> startsWith k ''_''}"
    by (simp add: newColumns_def set_uniq set_initialColumns)
  moreover have "distinct pinned \<longrightarrow>
      newColumns pinned rows = pinned @ filter (\<lambda>k. k \<notin> set pinned) (initialColumns rows)"
    by (simp add: newColumns_split uniq_distinct_id)
  moreover have "sorted_wrt (\<lambda>a b. first_index (allKeys rows) a < first_index (allKeys rows) b)
        (initialColumns rows)"
    unfolding initialColumns_def visible_concat by (rule uniq_first_seen)
  ultimately show ?thesis by blast
qed


text \<open>
  A row key that begins with an underscore is a key present in a row and is not in the
  derived column list: the claim C3 as stated fails there.
\<close>

theorem C3_counterexample:
  "''_id'' \<in> set (allKeys [texas_id])
   \<and> ''_id'' \<notin> set (newColumns [] [texas_id])"
  by (simp add: allKeys_def newColumns_def initialColumns_def visibleKeys_def uniq_def startsWith_def
      texas_id_def)

theorem C3_column_list_witness:
  "distinct [''pop'']
   \<and> newColumns [''pop'']
        [texas_id, ohio_capital]
      = [''pop'', ''state'', ''capital'']"
  using C3_column_list [of "[''pop'']"
        "[texas_id, ohio_capital]"]
  by (simp add: initialColumns_def visibleKeys_def uniq_def startsWith_def texas_id_def
      ohio_capital_def)

text \<open>
  Claim C9. Every pinned column is in the derived column list, whether or not it is a key
  of any row, and it comes before every column of the list that is not pinned.
\<close>

theorem C9_pinned_first:
  "p \<in> set pinned \<Longrightarrow>
     p \<in> set (newColumns pinned rows)
     \<and> (\<forall>u \<in> set (newColumns pinned rows). u \<notin> set pinned \<longrightarrow>
          first_index (newColumns pinned rows) p < first_index (newColumns pinned rows) u)"
proof -
  assume p: "p \<in> set pinned"
  let ?rest = "filter (\<lambda>k. k \<notin> set pinned) (initialColumns rows)"
  have split: "newColumns pinned rows = uniq pinned @ ?rest"
    by (rule newColumns_split)
  from p have pu: "p \<in> set (uniq pinned)" by (simp add: set_uniq)
  have "first_index (uniq pinned @ ?rest) p < first_index (uniq pinned @ ?rest) u"
    if "u \<notin> set pinned" for u
  proof -
    have "first_index (uniq pinned @ ?rest) p = first_index (uniq pinned) p"
      using pu by (simp add: first_index_append)
    also have "\<dots> < length (uniq pinned)"
      using pu by (rule first_index_less)
    also have "\<dots> \<le> first_index (uniq pinned @ ?rest) u"
      using that by (simp add: first_index_append set_uniq)
    finally show ?thesis .
  qed
  with pu show ?thesis unfolding split by simp
qed

theorem C9_pinned_first_witness:
  "''ghost'' \<notin> set (allKeys [texas])
   \<and> newColumns [''ghost''] [texas]
       = [''ghost'', ''state'', ''pop'']
   \<and> first_index (newColumns [''ghost''] [texas]) ''ghost''
       < first_index (newColumns [''ghost''] [texas]) ''state''"
proof -
  let ?rows = "[texas]"
  have cols: "newColumns [''ghost''] ?rows = [''ghost'', ''state'', ''pop'']"
    by (simp add: newColumns_def initialColumns_def visibleKeys_def uniq_def startsWith_def
        texas_def)
  have "''ghost'' \<in> set [''ghost'']" by simp
  from C9_pinned_first [OF this, of ?rows] cols show ?thesis
    by (simp add: allKeys_def texas_def)
qed

section \<open>Properties of the states the hook reaches\<close>

lemma handleSort_pinned: "pinnedColumns (handleSort pf c s) = pinnedColumns s"
  by (simp add: handleSort_def)

lemma initialColumns_visible: "k \<in> set (initialColumns rows) \<Longrightarrow> \<not> startsWith k ''_''"
  by (simp add: set_initialColumns)

lemma newColumns_underscore:
  "k \<in> set (newColumns pinned rows) \<Longrightarrow> startsWith k ''_'' \<Longrightarrow> k \<in> set pinned"
  by (auto simp: newColumns_def set_uniq set_initialColumns)

lemma reachable_pinned_visible:
  "reachable pf s \<Longrightarrow> \<forall>p\<in>set (pinnedColumns s). \<not> startsWith p ''_''"
proof (induction rule: reachable.induct)
  case mounted
  show ?case by (simp add: initial_state_def)
next
  case started
  show ?case by (simp add: initial_state_def getStatesData_start_def)
next
  case (settled r)
  show ?case
    by (cases r) (simp_all add: initial_state_def getStatesData_start_def getStatesData_settle_def)
next
  case (clicked s col metaKey)
  from clicked.hyps(4) clicked.IH have "\<not> startsWith col ''_''"
    unfolding columns_def by (blast dest: newColumns_underscore)
  with clicked.IH show ?case
    by (auto simp: onClick_def handlePinning_pinned handleSort_pinned)
qed

lemma reachable_pinned_distinct:
  "reachable pf s \<Longrightarrow> distinct (pinnedColumns s)"
proof (induction rule: reachable.induct)
  case (settled r)
  show ?case
    by (cases r) (simp_all add: initial_state_def getStatesData_start_def getStatesData_settle_def)
next
  case (clicked s col metaKey)
  then show ?case
    by (auto simp: onClick_def handlePinning_pinned handleSort_pinned)
qed (simp_all add: initial_state_def getStatesData_start_def)

text \<open>
  Claim C8. No key that begins with an underscore is among the columns derived from the
  rows of any dataset; such a name is in the derived column list only if it is pinned,
  and no pinned column begins with an underscore in any state the hook reaches. So in
  every such state the column list holds no name that begins with an underscore, and
  the displayed table has exactly these columns: its header cells carry the names of
  the list and each of its rows is made of the cells of one data row at the columns of
  the list.
\<close>

theorem C8_underscore_hidden:
  fixes s :: "'n::linorder hook_state" and rows :: "'n row list"
  shows "(\<forall>k\<in>set (initialColumns rows). \<not> startsWith k ''_'')
    \<and> (\<forall>k\<in>set (newColumns pinned rows). startsWith k ''_'' \<longrightarrow> k \<in> set pinned)
    \<and> (reachable pf s \<longrightarrow> (\<forall>k\<in>set (columns s). \<not> startsWith k ''_''))
    \<and> (reachable pf s \<longrightarrow> DataGrid fmt s = Table hs body \<longrightarrow>
          (\<forall>h\<in>set hs. \<not> startsWith (fst h) ''_'')
          \<and> map fst hs = columns s
          \<and> body = map (\<lambda>row. map (\<lambda>col. Cell fmt (map_of row col) (col \<in> set (pinnedColumns s)))
                                   (columns s))
                       (data s))"
proof -
  have vis: "\<forall>k\<in>set (columns s). \<not> startsWith k ''_''" if "reachable pf s"
    using reachable_pinned_visible [OF that]
    unfolding columns_def by (blast dest: newColumns_underscore)
  have "(\<forall>h\<in>set hs. \<not> startsWith (fst h) ''_'')
      \<and> map fst hs = columns s
      \<and> body = map (\<lambda>row. map (\<lambda>col. Cell fmt (map_of row col) (col \<in> set (pinnedColumns s)))
                               (columns s))
                   (data s)"
    if r: "reachable pf s" and t: "DataGrid fmt s = Table hs body"
  proof -
    from t have hs: "hs = map (\<lambda>col. (col, col \<in> set (pinnedColumns s))) (columns s)"
      and body: "body = map (\<lambda>row. map (\<lambda>col. Cell fmt (map_of row col) (col \<in> set (pinnedColumns s)))
                               (columns s))
                   (data s)"
      by (simp_all add: DataGrid_def split: if_splits)
    from hs have "map fst hs = columns s"
      by (simp add: comp_def)
    moreover from hs vis [OF r] have "\<forall>h\<in>set hs. \<not> startsWith (fst h) ''_''"
      by auto
    ultimately show ?thesis using body by blast
  qed
  with vis show ?thesis
    by (blast dest: initialColumns_visible newColumns_underscore)
qed

theorem C8_underscore_hidden_witness:
  "startsWith ''_id'' ''_''
   \<and> map_of texas_id ''_id'' = Some (Num 1)
   \<and> reachable example_platform (fst (getStatesData_settle
         (Resolved [texas_id]) (fst (getStatesData_start initial_state))))
   \<and> columns (fst (getStatesData_settle
         (Resolved [texas_id]) (fst (getStatesData_start initial_state)))) = [''state'', ''pop'']
   \<and> DataGrid toLocaleString_enUS (fst (getStatesData_settle
         (Resolved [texas_id]) (fst (getStatesData_start initial_state))))
       = Table [(''state'', False), (''pop'', False)]
           [texas_cells]
   \<and> map (\<lambda>cell. rendered (child cell))
         texas_cells
       = [TextNode ''Texas'', TextNode ''29,000,000'']"
proof -
  let ?s = "fst (getStatesData_settle (Resolved [texas_id]) (fst (getStatesData_start initial_state)))"
  let ?hs = "[(''state'', False), (''pop'', False)]"
  let ?body = "[texas_cells]"
  have r: "reachable example_platform ?s"
    by (rule reachable.settled)
  have c: "columns ?s = [''state'', ''pop'']"
    by (simp add: columns_def getStatesData_settle_def getStatesData_start_def initial_state_def
        newColumns_def initialColumns_def visibleKeys_def uniq_def startsWith_def texas_id_def)
  have d: "data ?s = [texas_id]" and l: "\<not> loading ?s" and e: "error ?s = None"
    and p: "pinnedColumns ?s = []"
    by (simp_all add: getStatesData_settle_def getStatesData_start_def initial_state_def)
  have t: "DataGrid toLocaleString_enUS ?s = Table ?hs ?body"
    unfolding DataGrid_def c d p using l e
    by (simp add: truthy_def texas_id_def texas_cells_def)
  have v: "map (\<lambda>cell. rendered (child cell))
         texas_cells
       = [TextNode ''Texas'', TextNode ''29,000,000'']"
    by (simp add: texas_cells_def Cell_def toLocaleString_enUS_def toLowerCase_def toLowerChar_def
        endsWith_def)
  from C8_underscore_hidden [where rows = "[texas_id]" and pinned = "[]" and pf = example_platform
      and s = ?s and fmt = toLocaleString_enUS and hs = ?hs and body = ?body] r c t v
  show ?thesis
    by (simp add: startsWith_def texas_id_def)
qed

section \<open>Properties of rendering\<close>

text \<open>
  Claim C6. A string whose lower-cased form ends in .png is rendered as an image with the
  string as source; a number is rendered as the text that the locale's formatter gives
  (1234567 as 1,234,567 under en-US); any other string is rendered as the text itself; an
  undefined value, which is what a row gives for a key it lacks, renders nothing.
\<close>

theorem C6_cell_rendering:
  fixes fmt :: "'n \<Rightarrow> string"
  shows "(endsWith (toLowerCase u) ''.png'' \<longrightarrow>
            rendered (child (Cell fmt (Some (Str u)) pinned)) = ImgElement u)
    \<and> rendered (child (Cell fmt (Some (Num x)) pinned)) = TextNode (fmt x)
    \<and> (\<not> endsWith (toLowerCase u) ''.png'' \<longrightarrow>
            rendered (child (Cell fmt (Some (Str u)) pinned)) = TextNode u)
    \<and> rendered (child (Cell fmt None pinned)) = NoNode
    \<and> (col \<notin> fst ` set row \<longrightarrow> rendered (child (Cell fmt (map_of row col) pinned)) = NoNode)
    \<and> rendered (child (Cell toLocaleString_enUS (Some (Str ''flag.png'')) pinned)) = ImgElement ''flag.png''
    \<and> rendered (child (Cell toLocaleString_enUS (Some (Num 1234567)) pinned)) = TextNode ''1,234,567''
    \<and> rendered (child (Cell toLocaleString_enUS (Some (Str ''Texas'')) pinned)) = TextNode ''Texas''"
proof -
  have "map_of row col = None" if "col \<notin> fst ` set row"
    using that by (simp add: map_of_eq_None_iff)
  then show ?thesis
    by (simp add: Cell_def toLocaleString_enUS_def toLowerCase_def toLowerChar_def endsWith_def)
qed

theorem C6_cell_rendering_witness:
  "endsWith (toLowerCase ''Flag.PNG'') ''.png''
   \<and> rendered (child (Cell toLocaleString_enUS (Some (Str ''Flag.PNG'')) False)) = ImgElement ''Flag.PNG''
   \<and> \<not> endsWith (toLowerCase ''png'') ''.png''
   \<and> rendered (child (Cell toLocaleString_enUS (Some (Str ''png'')) False)) = TextNode ''png''
   \<and> ''capital'' \<notin> fst ` set texas
   \<and> rendered (child (Cell toLocaleString_enUS
        (map_of texas ''capital'') False)) = NoNode
   \<and> rendered (child (Cell toLocaleString_enUS
        (map_of texas ''pop'') False))
       = TextNode ''29,000,000''"
proof -
  have a: "endsWith (toLowerCase ''Flag.PNG'') ''.png''"
    by (simp add: toLowerCase_def toLowerChar_def endsWith_def)
  have b: "\<not> endsWith (toLowerCase ''png'') ''.png''"
    by (simp add: toLowerCase_def toLowerChar_def endsWith_def)
  have c: "''capital'' \<notin> fst ` set texas"
    by (simp add: texas_def)
  have e: "map_of texas ''pop'' = Some (Num 29000000)"
    by (simp add: texas_def)
  have d: "toLocaleString_enUS 29000000 = ''29,000,000''"
    by (simp add: toLocaleString_enUS_def)
  from C6_cell_rendering [where fmt = toLocaleString_enUS and u = "''Flag.PNG''" and pinned = False
        and x = 29000000 and col = "''capital''"
        and row = "texas"]
     C6_cell_rendering [where fmt = toLocaleString_enUS and u = "''png''" and pinned = False
        and x = 29000000 and col = "''capital''"
        and row = "texas"]
     a b c d e
  show ?thesis by simp
qed

section \<open>Properties of loading and of the initial state\<close>

text \<open>
  Claim C7. When the request started from the initial state is rejected, by fetch or by
  the parsing of its body, the error message is set, the loading flag is false, the
  dataset is still empty (a failure leaves the dataset of any state as it was), the grid
  renders the error text alone, and the only effect issued is the log entry: no request.
\<close>

theorem C7_fetch_failure:
  fixes fmt :: "'n \<Rightarrow> string"
  assumes "r = FetchRejected msg \<or> r = JsonRejected msg"
  shows "let started = getStatesData_start (initial_state :: 'n hook_state);
             failed = getStatesData_settle r (fst started) in
           error (fst failed) = Some ''Error fetching states''
           \<and> loading (fst failed) = False
           \<and> data (fst failed) = []
           \<and> DataGrid fmt (fst failed) = Div ''Error fetching states''
           \<and> snd failed = [ConsoleError ''Error fetching states'' msg]
           \<and> (\<forall>url. Fetch url \<notin> set (snd failed))
           \<and> data (fst (getStatesData_settle r s)) = data s"
  using assms
  by (auto simp: Let_def getStatesData_start_def getStatesData_settle_def initial_state_def
      DataGrid_def truthy_def)

theorem C7_fetch_failure_witness:
  "DataGrid toLocaleString_enUS
      (fst (getStatesData_settle (FetchRejected ''Failed to fetch'')
         (fst (getStatesData_start (initial_state :: int hook_state)))))
     = Div ''Error fetching states''
   \<and> data (fst (getStatesData_settle (JsonRejected ''Unexpected token'')
         (fst (getStatesData_start (initial_state :: int hook_state))))) = []"
  using C7_fetch_failure [where r = "FetchRejected ''Failed to fetch''" and msg = "''Failed to fetch''"
      and fmt = toLocaleString_enUS and s = "initial_state :: int hook_state"]
    C7_fetch_failure [where r = "JsonRejected ''Unexpected token''" and msg = "''Unexpected token''"
      and fmt = toLocaleString_enUS and s = "initial_state :: int hook_state"]
  by (simp add: Let_def)

text \<open>
  Claim C10. In the initial state loading is false, error is null, the dataset and the
  pinned columns are empty and the sort state is state ascending; the grid renders a
  table with no header cell and no row, not the loading text.
\<close>

theorem C10_initial_state:
  fixes fmt :: "'n \<Rightarrow> string"
  shows "loading (initial_state :: 'n hook_state) = False
    \<and> error (initial_state :: 'n hook_state) = None
    \<and> data (initial_state :: 'n hook_state) = []
    \<and> pinnedColumns (initial_state :: 'n hook_state) = []
    \<and> sortedOn (initial_state :: 'n hook_state) = \<lparr>direction = ASC, column = ''state''\<rparr>
    \<and> DataGrid fmt (initial_state :: 'n hook_state) = Table [] []
    \<and> DataGrid fmt (initial_state :: 'n hook_state) \<noteq> Div ''Loading...''"
  by (simp add: initial_state_def DataGrid_def truthy_def columns_def newColumns_def
      initialColumns_def uniq_def)

end
